theory Spec2Isabelle
  imports Complex_Main
begin

section \<open>Numbers and text of the calculator\<close>

text \<open>
  The calculator (\<^verbatim>\<open>src/src/main.jsx\<close>) computes with JavaScript numbers. They are
  modelled as exact reals. The properties below say which formula the code computes,
  which branch it takes and which state it builds; none of them says which digits a
  computation in IEEE doubles yields, and the rounding of doubles is outside the model.
  The one operation of the program
  whose divisor can be zero is the division in \<open>priceForMargin\<close>; JavaScript does not
  raise there but returns \<open>Infinity\<close>, \<open>-Infinity\<close> or \<open>NaN\<close>, so that division returns a
  \<open>jsnum\<close>. (The divisor \<open>1 - margin\<close> is a difference, so a zero divisor is \<open>+0\<close> and
  the sign of the quotient is the sign of the dividend.)
\<close>

datatype jsnum = Finite real | PosInfinity | NegInfinity | NaN

definition js_divide :: "real \<Rightarrow> real \<Rightarrow> jsnum" where
  "js_divide a b =
     (if b \<noteq> 0 then Finite (a / b)
      else if a > 0 then PosInfinity
      else if a < 0 then NegInfinity
      else NaN)"

subsection \<open>parseFloat, parseInt and toFixed\<close>

text \<open>
  Form fields hold text. \<open>parseFloat\<close> reads the longest prefix that is a decimal literal
  (leading white space, of which the ASCII characters are modelled, a sign, digits, a
  fraction, an exponent) and gives \<open>None\<close> for JavaScript's \<open>NaN\<close>. Its value is the
  exact decimal. The literal \<open>Infinity\<close>, the only text that JavaScript reads as a
  non-finite number, is not a number of this model and is read as \<open>None\<close>.
\<close>

definition is_space :: "char \<Rightarrow> bool" where
  "is_space c = (c \<in> set [CHR '' '', CHR 0x09, CHR 0x0A, CHR 0x0B, CHR 0x0C, CHR 0x0D])"

definition is_digit :: "char \<Rightarrow> bool" where
  "is_digit c = (c \<in> set ''0123456789'')"

definition digit_val :: "char \<Rightarrow> nat" where
  "digit_val c = of_char c - 48"

definition digits_val :: "string \<Rightarrow> nat" where
  "digits_val ds = foldl (\<lambda>acc c. 10 * acc + digit_val c) 0 ds"

definition take_sign :: "string \<Rightarrow> int \<times> string" where
  "take_sign s =
     (case s of
        c # r \<Rightarrow> if c = CHR ''-'' then (-1, r) else if c = CHR ''+'' then (1, r) else (1, s)
      | [] \<Rightarrow> (1, s))"

definition exponent_of :: "string \<Rightarrow> int" where
  "exponent_of s =
     (case s of
        c # r \<Rightarrow>
          if c = CHR ''e'' \<or> c = CHR ''E''
          then (let (sg, r') = take_sign r; ds = takeWhile is_digit r'
                in if ds = [] then 0 else sg * int (digits_val ds))
          else 0
      | [] \<Rightarrow> 0)"

definition pow10 :: "int \<Rightarrow> real" where
  "pow10 e = (if e \<ge> 0 then 10 ^ nat e else 1 / 10 ^ nat (- e))"

definition parseFloat :: "string \<Rightarrow> real option" where
  "parseFloat s =
     (let (sg, u) = take_sign (dropWhile is_space s);
          ip = takeWhile is_digit u;
          r1 = dropWhile is_digit u;
          (fp, r2) = (case r1 of
                        c # r \<Rightarrow> if c = CHR ''.''
                                 then (takeWhile is_digit r, dropWhile is_digit r)
                                 else ([], r1)
                      | [] \<Rightarrow> ([], r1))
      in if ip = [] \<and> fp = [] then None
         else Some (real_of_int sg * (real (digits_val (ip @ fp)) / 10 ^ length fp)
                      * pow10 (exponent_of r2)))"

text \<open>
  \<open>parseInt\<close> without a radix: white space, a sign, then hexadecimal digits after
  \<open>0x\<close>/\<open>0X\<close> and decimal digits otherwise; \<open>None\<close> is \<open>NaN\<close>.
\<close>

definition is_hex_digit :: "char \<Rightarrow> bool" where
  "is_hex_digit c = (c \<in> set ''0123456789abcdefABCDEF'')"

definition hex_val :: "char \<Rightarrow> nat" where
  "hex_val c =
     (if is_digit c then of_char c - 48
      else if c \<in> set ''abcdef'' then of_char c - 87
      else of_char c - 55)"

definition parseInt :: "string \<Rightarrow> int option" where
  "parseInt s =
     (let (sg, u) = take_sign (dropWhile is_space s)
      in if take 2 u = ''0x'' \<or> take 2 u = ''0X''
         then (let ds = takeWhile is_hex_digit (drop 2 u)
               in if ds = [] then None
                  else Some (sg * int (foldl (\<lambda>acc c. 16 * acc + hex_val c) 0 ds)))
         else (let ds = takeWhile is_digit u
               in if ds = [] then None else Some (sg * int (digits_val ds))))"

text \<open>
  \<open>x.toFixed(2)\<close>: the sign, then the integer nearest to \<open>100 * |x|\<close> (the larger one on a
  tie) written with two decimals. JavaScript switches to exponent notation from \<open>10^21\<close>
  on, which depends on the double behind the number and is not modelled.
\<close>

fun decimal_digits :: "nat \<Rightarrow> string" where
  "decimal_digits n =
     (if n < 10 then [char_of (48 + n)]
      else decimal_digits (n div 10) @ [char_of (48 + n mod 10)])"

declare decimal_digits.simps [simp del]

definition toFixed2 :: "jsnum \<Rightarrow> string" where
  "toFixed2 v =
     (case v of
        Finite x \<Rightarrow>
          (let n = nat \<lfloor>\<bar>x\<bar> * 100 + 1 / 2\<rfloor>
           in (if x < 0 then ''-'' else '''') @ decimal_digits (n div 100) @ ''.''
                @ [char_of (48 + (n mod 100) div 10), char_of (48 + n mod 10)])
      | PosInfinity \<Rightarrow> ''Infinity''
      | NegInfinity \<Rightarrow> ''-Infinity''
      | NaN \<Rightarrow> ''NaN'')"

section \<open>The test helpers of tests/helpers/utils/calculations.js\<close>

text \<open>The tests' own constant (\<^verbatim>\<open>tests/fixtures/test-data.js\<close>) is the rate as a fraction.\<close>

definition test_TAX_RATE :: real where
  "test_TAX_RATE = 0.09125"

definition backOutTax :: "real \<Rightarrow> real" where
  "backOutTax priceWithTax = priceWithTax / (1 + test_TAX_RATE)"

text \<open>
  The helpers that total a list of items, each item given by its price (or landing cost)
  and its quantity: they multiply by the quantity as it is.
\<close>

definition calculateItemsTotal :: "(real \<times> real) list \<Rightarrow> real" where
  "calculateItemsTotal items =
     foldl (\<lambda>sum (salePrice, quantity). sum + salePrice * quantity) 0 items"

definition calculateTotalLanding :: "(real \<times> real) list \<Rightarrow> real" where
  "calculateTotalLanding items =
     foldl (\<lambda>sum (landingCost, quantity). sum + landingCost * quantity) 0 items"

section \<open>The pricing code of main.jsx\<close>

definition TAX_RATE :: real where
  "TAX_RATE = 9.125"

text \<open>\<open>parseMoney(str)\<close>: drop every \<open>$\<close> and comma, parse, and replace \<open>NaN\<close> (and 0) by 0.\<close>

definition parseMoney :: "string \<Rightarrow> real" where
  "parseMoney str =
     (case parseFloat (filter (\<lambda>c. c \<noteq> CHR ''$'' \<and> c \<noteq> CHR '','') str) of
        None \<Rightarrow> 0
      | Some v \<Rightarrow> v)"

text \<open>
  \<open>calculateMargin\<close> divides by \<open>salePrice\<close> only after the guard \<open>salePrice <= 0\<close> has
  failed, so its divisor is positive and the division of the reals is the program's.
\<close>

definition calculateMargin :: "real \<Rightarrow> real \<Rightarrow> real" where
  "calculateMargin salePrice landingCost =
     (if salePrice \<le> 0 then 0
      else (let profit = salePrice - landingCost in (profit / salePrice) * 100))"

definition priceForMargin :: "real \<Rightarrow> real \<Rightarrow> jsnum" where
  "priceForMargin landingCost targetMarginPercent =
     (let margin = targetMarginPercent / 100 in js_divide landingCost (1 - margin))"

text \<open>
  The specification's wording of \<open>priceForMargin\<close>, to compare the code with: the same
  quotient, and the signal \<open>InvalidMarginTarget\<close> instead of a division when the target
  is 100.
\<close>

datatype error = InvalidMarginTarget

definition spec_priceForMargin :: "real \<Rightarrow> real \<Rightarrow> error + real" where
  "spec_priceForMargin landingCost targetMarginPercent =
     (if targetMarginPercent = 100 then Inl InvalidMarginTarget
      else Inr (landingCost / (1 - targetMarginPercent / 100)))"

text \<open>
  \<open>priceForMargin\<close> has no \<open>throw\<close>: every call returns a number. A returned number
  matches the specification's outcome when that outcome is the same finite value; no
  returned number, \<open>Infinity\<close> and \<open>NaN\<close> included, is a signalled error.
\<close>

definition matches_spec :: "jsnum \<Rightarrow> error + real \<Rightarrow> bool" where
  "matches_spec r expected = (case expected of Inr v \<Rightarrow> r = Finite v | Inl e \<Rightarrow> False)"

text \<open>
  The targets the program passes: the four buttons call \<open>setItemToMargin(item.id, 50)\<close>,
  \<open>49\<close>, \<open>48\<close> and \<open>47\<close>, and the previews \<open>priceAt50\<close> to \<open>priceAt47\<close> use the same four.
\<close>

definition marginTargets :: "real list" where
  "marginTargets = [50, 49, 48, 47]"

subsection \<open>Component state\<close>

text \<open>
  A line item as the component stores it: \<open>price\<close>, \<open>qty\<close> and \<open>landingCost\<close> are the
  texts of their fields (the initial \<open>qty\<close>, the number 1, is the text \<open>1\<close>: \<open>parseInt\<close>
  converts its argument to a string first), \<open>selectedMargin\<close> is a number or \<open>null\<close>,
  \<open>originalPrice\<close> a text or \<open>undefined\<close>.
\<close>

record item =
  item_id :: nat
  name :: string
  price :: string
  qty :: string
  landingCost :: string
  marginSet :: bool
  selectedMargin :: "real option"
  originalPrice :: "string option"

text \<open>
  The mode is one of the texts \<open>quote\<close>, \<open>margin\<close> and \<open>otd\<close> (the code takes every mode
  other than the first two as the third), the price type one of \<open>sale\<close> and \<open>tag\<close>. A
  \<open>state\<close> collects the state variables of the component that the pricing code reads.
\<close>

datatype mode = Quote | Margin | Otd

datatype price_type = Sale | Tag

record state =
  mode :: mode
  salePercent :: real
  noTaxPromo :: bool
  priceType :: price_type
  delivery :: string
  items :: "item list"
  otdPrice :: string

definition taxRate :: real where
  "taxRate = TAX_RATE / 100"

definition discount :: "state \<Rightarrow> real" where
  "discount st = salePercent st / 100"

definition deliveryAmount :: "state \<Rightarrow> real" where
  "deliveryAmount st = parseMoney (delivery st)"

definition deliveryTax :: "state \<Rightarrow> real" where
  "deliveryTax st = deliveryAmount st * taxRate"

subsection \<open>Line items\<close>

text \<open>
  One element of \<open>calculatedItems\<close>: the item it was computed from (\<open>source\<close>, the spread
  \<open>...item\<close>) and the computed fields. \<open>c_qty\<close> and \<open>c_landingCost\<close> are the numbers that
  replace the texts \<open>qty\<close> and \<open>landingCost\<close> in the spread; \<open>None\<close> is \<open>null\<close>.
\<close>

record calc_item =
  source :: item
  salePrice :: real
  invoicePrice :: real
  quotePrice :: real
  lineTotal :: real
  c_qty :: int
  c_landingCost :: real
  totalLandingCost :: real
  margin :: "real option"
  profitPerUnit :: "real option"
  totalProfit :: "real option"
  priceAt50 :: "jsnum option"
  priceAt49 :: "jsnum option"
  priceAt48 :: "jsnum option"
  priceAt47 :: "jsnum option"

text \<open>\<open>parseInt(item.qty) || 1\<close>: \<open>NaN\<close> and 0 are falsy.\<close>

definition qty_of :: "item \<Rightarrow> int" where
  "qty_of it = (case parseInt (qty it) of None \<Rightarrow> 1 | Some n \<Rightarrow> if n = 0 then 1 else n)"

text \<open>The three prices \<open>(salePrice, invoicePrice, quotePrice)\<close> of the mode branches.\<close>

definition prices :: "state \<Rightarrow> item \<Rightarrow> real \<times> real \<times> real" where
  "prices st it =
     (let rawPrice = parseMoney (price it) in
      if mode st = Quote then
        (if noTaxPromo st then
           (let quotePrice = (if priceType st = Sale then rawPrice else rawPrice * (1 - discount st));
                invoicePrice = quotePrice / (1 + taxRate);
                salePrice = invoicePrice
            in (salePrice, invoicePrice, quotePrice))
         else
           (let salePrice = (if priceType st = Sale then rawPrice else rawPrice * (1 - discount st));
                invoicePrice = salePrice;
                quotePrice = salePrice * (1 + taxRate)
            in (salePrice, invoicePrice, quotePrice)))
      else if mode st = Margin then
        (if marginSet it \<and> rawPrice > 0 then
           (let invoicePrice = rawPrice;
                salePrice = invoicePrice;
                quotePrice = invoicePrice * (1 + taxRate)
            in (salePrice, invoicePrice, quotePrice))
         else if rawPrice > 0 \<and> noTaxPromo st then
           (let quotePrice = (if priceType st = Sale then rawPrice else rawPrice * (1 - discount st));
                invoicePrice = quotePrice / (1 + taxRate);
                salePrice = invoicePrice
            in (salePrice, invoicePrice, quotePrice))
         else
           (let salePrice = (if priceType st = Sale then rawPrice else rawPrice * (1 - discount st));
                invoicePrice = salePrice;
                quotePrice = (if salePrice > 0 then salePrice * (1 + taxRate) else 0)
            in (salePrice, invoicePrice, quotePrice)))
      else
        (let salePrice = (if priceType st = Sale then rawPrice else rawPrice * (1 - discount st));
             invoicePrice = salePrice;
             quotePrice = salePrice * (1 + taxRate)
         in (salePrice, invoicePrice, quotePrice)))"

definition calculatedItem :: "state \<Rightarrow> item \<Rightarrow> calc_item" where
  "calculatedItem st it =
     (let qty = qty_of it;
          landingCost = parseMoney (landingCost it);
          (salePrice, invoicePrice, quotePrice) = prices st it;
          lineTotal = invoicePrice * real_of_int qty;
          margin = (if landingCost > 0 \<and> invoicePrice > 0
                    then Some (calculateMargin invoicePrice landingCost) else None);
          totalLandingCost = landingCost * real_of_int qty;
          profitPerUnit = (if landingCost > 0 \<and> invoicePrice > 0
                           then Some (invoicePrice - landingCost) else None);
          totalProfit = (case profitPerUnit of Some p \<Rightarrow> Some (p * real_of_int qty) | None \<Rightarrow> None);
          priceAt50 = (if landingCost > 0 then Some (priceForMargin landingCost 50) else None);
          priceAt49 = (if landingCost > 0 then Some (priceForMargin landingCost 49) else None);
          priceAt48 = (if landingCost > 0 then Some (priceForMargin landingCost 48) else None);
          priceAt47 = (if landingCost > 0 then Some (priceForMargin landingCost 47) else None)
      in \<lparr> source = it,
           salePrice = invoicePrice,
           invoicePrice = invoicePrice,
           quotePrice = quotePrice,
           lineTotal = lineTotal,
           c_qty = qty,
           c_landingCost = landingCost,
           totalLandingCost = totalLandingCost,
           margin = margin,
           profitPerUnit = profitPerUnit,
           totalProfit = totalProfit,
           priceAt50 = priceAt50,
           priceAt49 = priceAt49,
           priceAt48 = priceAt48,
           priceAt47 = priceAt47 \<rparr>)"

definition calculatedItems :: "state \<Rightarrow> calc_item list" where
  "calculatedItems st =
     filter (\<lambda>item. lineTotal item > 0 \<or> c_landingCost item > 0)
       (map (calculatedItem st) (items st))"

subsection \<open>Deal totals\<close>

text \<open>
  The component calls the totals of the deal \<open>totalLandingCost\<close> and \<open>totalProfit\<close>, the
  names of the fields of an item they sum; here the totals are \<open>dealLandingCost\<close> and
  \<open>dealProfit\<close>.
\<close>

definition subtotal :: "state \<Rightarrow> real" where
  "subtotal st = foldl (\<lambda>sum item. sum + lineTotal item) 0 (calculatedItems st)"

definition dealLandingCost :: "state \<Rightarrow> real" where
  "dealLandingCost st = foldl (\<lambda>sum item. sum + totalLandingCost item) 0 (calculatedItems st)"

definition dealProfit :: "state \<Rightarrow> real" where
  "dealProfit st =
     foldl (\<lambda>sum item. sum + (case totalProfit item of Some p \<Rightarrow> p | None \<Rightarrow> 0)) 0
       (calculatedItems st)"

definition overallMargin :: "state \<Rightarrow> real option" where
  "overallMargin st =
     (if subtotal st > 0 \<and> dealLandingCost st > 0
      then Some (calculateMargin (subtotal st) (dealLandingCost st)) else None)"

definition taxOnMerchandise :: "state \<Rightarrow> real" where
  "taxOnMerchandise st = subtotal st * taxRate"

definition totalTax :: "state \<Rightarrow> real" where
  "totalTax st = taxOnMerchandise st + deliveryTax st"

definition customerTotal :: "state \<Rightarrow> real" where
  "customerTotal st =
     (if mode st = Quote \<and> noTaxPromo st then
        (let quoteSubtotal =
               foldl (\<lambda>sum item. sum + quotePrice item * real_of_int (c_qty item)) 0
                 (calculatedItems st)
         in quoteSubtotal + deliveryAmount st + deliveryTax st)
      else subtotal st + taxOnMerchandise st + deliveryAmount st + deliveryTax st)"

subsection \<open>OTD back-calculation\<close>

definition otdAmount :: "state \<Rightarrow> real" where
  "otdAmount st = parseMoney (otdPrice st)"

definition otdDeliveryWithTax :: "state \<Rightarrow> real" where
  "otdDeliveryWithTax st = deliveryAmount st + deliveryTax st"

definition otdMerchandiseWithTax :: "state \<Rightarrow> real" where
  "otdMerchandiseWithTax st = otdAmount st - otdDeliveryWithTax st"

definition otdSalePrice :: "state \<Rightarrow> real" where
  "otdSalePrice st = otdMerchandiseWithTax st / (1 + taxRate)"

definition otdMerchandiseTax :: "state \<Rightarrow> real" where
  "otdMerchandiseTax st = otdMerchandiseWithTax st - otdSalePrice st"

definition otdMargin :: "state \<Rightarrow> real option" where
  "otdMargin st =
     (if dealLandingCost st > 0
      then Some (calculateMargin (otdSalePrice st) (dealLandingCost st)) else None)"

definition otdProfit :: "state \<Rightarrow> real" where
  "otdProfit st = otdSalePrice st - dealLandingCost st"

subsection \<open>Editing the items\<close>

text \<open>
  \<open>setItemToMargin\<close> maps a function over the items; \<open>setItemToMargin_item\<close> is that
  function. The items of the new state are the mapped list.
\<close>

definition setItemToMargin_item :: "nat \<Rightarrow> real \<Rightarrow> item \<Rightarrow> item" where
  "setItemToMargin_item itemId targetMargin it =
     (if item_id it = itemId then
        (let lc = parseMoney (landingCost it) in
         if lc > 0 then
           (case (if selectedMargin it = Some targetMargin then originalPrice it else None) of
              Some previous \<Rightarrow>
                it\<lparr> price := previous, marginSet := False,
                    selectedMargin := None, originalPrice := None \<rparr>
            | None \<Rightarrow>
                (let original = (if marginSet it then originalPrice it else Some (price it));
                     invoicePrice = priceForMargin lc targetMargin
                 in it\<lparr> price := toFixed2 invoicePrice, marginSet := True,
                        selectedMargin := Some targetMargin, originalPrice := original \<rparr>))
         else it)
      else it)"

definition setItemToMargin :: "nat \<Rightarrow> real \<Rightarrow> state \<Rightarrow> state" where
  "setItemToMargin itemId targetMargin st =
     st\<lparr> items := map (setItemToMargin_item itemId targetMargin) (items st) \<rparr>"

definition updateItemPrice :: "nat \<Rightarrow> string \<Rightarrow> state \<Rightarrow> state" where
  "updateItemPrice i v st =
     st\<lparr> items :=
           map (\<lambda>it. if item_id it = i
                      then it\<lparr> price := v, marginSet := False,
                             selectedMargin := None, originalPrice := None \<rparr>
                      else it) (items st) \<rparr>"

text \<open>\<open>updateItem(id, field, value)\<close> is called with the fields \<open>name\<close>, \<open>qty\<close> and \<open>landingCost\<close>.\<close>

datatype field = Name | Qty | LandingCost

definition updateItem :: "nat \<Rightarrow> field \<Rightarrow> string \<Rightarrow> state \<Rightarrow> state" where
  "updateItem i f v st =
     st\<lparr> items :=
           map (\<lambda>it. if item_id it = i
                      then (case f of Name \<Rightarrow> it\<lparr> name := v \<rparr>
                                    | Qty \<Rightarrow> it\<lparr> qty := v \<rparr>
                                    | LandingCost \<Rightarrow> it\<lparr> landingCost := v \<rparr>)
                      else it) (items st) \<rparr>"

definition emptyItem :: "nat \<Rightarrow> item" where
  "emptyItem i =
     \<lparr> item_id = i, name = [], price = [], qty = ''1'', landingCost = [],
       marginSet = False, selectedMargin = None, originalPrice = None \<rparr>"

text \<open>\<open>addItem\<close> takes the new id from the clock (\<open>Date.now()\<close>), here the argument \<open>now\<close>.\<close>

definition addItem :: "nat \<Rightarrow> state \<Rightarrow> state" where
  "addItem now st = st\<lparr> items := items st @ [emptyItem now] \<rparr>"

definition removeItem :: "nat \<Rightarrow> state \<Rightarrow> state" where
  "removeItem i st =
     (if length (items st) > 1
      then st\<lparr> items := filter (\<lambda>item. item_id item \<noteq> i) (items st) \<rparr>
      else st)"

subsection \<open>Margin badges\<close>

text \<open>The labels start with a symbol outside ASCII, written here as its UTF-8 bytes.\<close>

definition check_mark :: string where
  "check_mark = [CHR 0xE2, CHR 0x9C, CHR 0x93]"

definition warning_sign :: string where
  "warning_sign = [CHR 0xE2, CHR 0x9A, CHR 0xA0]"

definition warning_emoji :: string where
  "warning_emoji = warning_sign @ [CHR 0xEF, CHR 0xB8, CHR 0x8F]"

definition ballot_x :: string where
  "ballot_x = [CHR 0xE2, CHR 0x9C, CHR 0x97]"

definition getMarginColor :: "real \<Rightarrow> string" where
  "getMarginColor m =
     (if m \<ge> 50 then ''#2e7d32'' else if m \<ge> 47 then ''#f57c00'' else ''#c62828'')"

definition getMarginLabel :: "real \<Rightarrow> string" where
  "getMarginLabel m =
     (if m \<ge> 50 then check_mark @ '' Great''
      else if m \<ge> 47 then warning_emoji @ '' OK''
      else ballot_x @ '' Too Low'')"

text \<open>The CSS class of the overall-margin badge, next to \<open>getMarginLabel(overallMargin)\<close>.\<close>

definition overallBadgeClass :: "real \<Rightarrow> string" where
  "overallBadgeClass m =
     ''badge '' @ (if m \<ge> 50 then ''green'' else if m \<ge> 47 then ''orange'' else ''red'')"

text \<open>The background of a per-item badge; its colour is \<open>getMarginColor(item.margin)\<close>.\<close>

definition itemBadgeBackground :: "real \<Rightarrow> string" where
  "itemBadgeBackground m =
     (if m \<ge> 50 then ''#e8f5e9'' else if m \<ge> 47 then ''#fff3e0'' else ''#ffebee'')"

text \<open>The OTD result: the banner's background and its wording of the three bands.\<close>

definition otdBannerBackground :: "real \<Rightarrow> string" where
  "otdBannerBackground m =
     (if m \<ge> 50 then ''linear-gradient(135deg, #2e7d32 0%, #1b5e20 100%)''
      else if m \<ge> 47 then ''linear-gradient(135deg, #f57c00 0%, #e65100 100%)''
      else ''linear-gradient(135deg, #c62828 0%, #b71c1c 100%)'')"

definition otdBannerLabel :: "real \<Rightarrow> string" where
  "otdBannerLabel m =
     (if m \<ge> 50 then check_mark @ '' APPROVED''
      else if m \<ge> 47 then warning_emoji @ '' MANAGER OK?''
      else ballot_x @ '' TOO LOW'')"

section \<open>Predicates on the input\<close>

text \<open>
  The ranges the specification gives a line item: a price and a landing cost that are
  not negative, and a quantity that is not negative where it is a number at all.
\<close>

definition valid_item :: "item \<Rightarrow> bool" where
  "valid_item it =
     (0 \<le> parseMoney (price it) \<and> 0 \<le> parseMoney (landingCost it)
      \<and> (case parseInt (qty it) of None \<Rightarrow> True | Some n \<Rightarrow> 0 \<le> n))"

text \<open>
  \<open>marginSet\<close> and \<open>selectedMargin\<close> are written together by every function that edits an
  item: an item is marked exactly when a target is selected.
\<close>

definition flags_agree :: "item \<Rightarrow> bool" where
  "flags_agree it = (marginSet it = (selectedMargin it \<noteq> None))"

section \<open>Example data\<close>

text \<open>
  A sofa with a price of 1200 and a landing cost of 600, and a deal with 30 percent off
  and a delivery of 135, in the given mode and settings.
\<close>

definition sofa :: item where
  "sofa = \<lparr> item_id = 1, name = ''Sofa'', price = ''1200'', qty = ''1'', landingCost = ''600'',
            marginSet = False, selectedMargin = None, originalPrice = None \<rparr>"

definition deal :: "mode \<Rightarrow> bool \<Rightarrow> price_type \<Rightarrow> item list \<Rightarrow> string \<Rightarrow> state" where
  "deal m promo pt its offer =
     \<lparr> mode = m, salePercent = 30, noTaxPromo = promo, priceType = pt,
       delivery = ''135'', items = its, otdPrice = offer \<rparr>"

text \<open>
  The item of the end-to-end test \<open>should handle zero quantity\<close> among the tests of
  edge cases: a price of 1000, a landing cost of 500 and a quantity of 0.
\<close>

definition zero_quantity_item :: item where
  "zero_quantity_item =
     \<lparr> item_id = 1, name = [], price = ''1000'', qty = ''0'', landingCost = ''500'',
       marginSet = False, selectedMargin = None, originalPrice = None \<rparr>"

section \<open>Properties\<close>

subsection \<open>Evaluation and arithmetic\<close>

lemmas parse_defs = parseMoney_def parseFloat_def parseInt_def take_sign_def is_space_def
  is_digit_def digits_val_def digit_val_def exponent_of_def pow10_def

lemmas calc_defs = calculatedItems_def calculatedItem_def prices_def qty_of_def discount_def
  taxRate_def TAX_RATE_def calculateMargin_def priceForMargin_def js_divide_def Let_def

lemmas example_defs = deal_def sofa_def emptyItem_def zero_quantity_item_def

lemma tax_rates: "taxRate = 0.09125" "test_TAX_RATE = taxRate" "1 + taxRate \<noteq> 0"
  by (simp_all add: taxRate_def TAX_RATE_def test_TAX_RATE_def)

lemma foldl_add_sum_list:
  "foldl (\<lambda>sum x. sum + f x) (a::real) xs = a + sum_list (map f xs)"
  by (induction xs arbitrary: a) simp_all

subsection \<open>Deal totals\<close>

text \<open>
  Claim C1. In Quote mode with the no-tax promotion on, the customer total is the sum of
  \<open>quotePrice * qty\<close> over the aggregated items plus the delivery fee and the delivery
  tax; in every other combination of mode and promotion it is the invoice subtotal plus
  the merchandise tax, the delivery fee and the delivery tax. The invoice subtotal is the
  sum of the line totals of the aggregated items, the merchandise tax is the subtotal
  times 0.09125 and the delivery tax is the delivery fee times 0.09125.
\<close>

theorem customerTotal_formula:
  "(mode st = Quote \<and> noTaxPromo st \<longrightarrow>
      customerTotal st =
        (\<Sum>c\<leftarrow>calculatedItems st. quotePrice c * real_of_int (c_qty c))
          + deliveryAmount st + deliveryTax st)
   \<and> (\<not> (mode st = Quote \<and> noTaxPromo st) \<longrightarrow>
      customerTotal st = subtotal st + taxOnMerchandise st + deliveryAmount st + deliveryTax st)
   \<and> subtotal st = (\<Sum>c\<leftarrow>calculatedItems st. lineTotal c)
   \<and> taxOnMerchandise st = subtotal st * 0.09125
   \<and> deliveryTax st = deliveryAmount st * 0.09125"
  by (simp add: customerTotal_def subtotal_def taxOnMerchandise_def deliveryTax_def
      foldl_add_sum_list taxRate_def TAX_RATE_def)

text \<open>
  The sofa tagged 1200 at 30 percent off: 840 plus delivery and its tax with the
  promotion, and 840 plus both taxes and delivery without it.
\<close>

theorem customerTotal_formula_witness:
  "customerTotal (deal Quote True Tag [sofa] []) = 840 + 135 + 135 * 0.09125
   \<and> customerTotal (deal Quote False Tag [sofa] []) = 840 + 840 * 0.09125 + 135 + 135 * 0.09125"
  using customerTotal_formula [of "deal Quote True Tag [sofa] []"]
    customerTotal_formula [of "deal Quote False Tag [sofa] []"]
  by (simp add: calc_defs parse_defs example_defs deliveryAmount_def)

text \<open>
  With the promotion on in Quote mode the quote price of an item is its invoice price
  with the tax, so the sum of the quote prices is the subtotal plus the merchandise tax:
  the total holds that tax once.
\<close>

lemma quote_promo_item:
  assumes "mode st = Quote" and "noTaxPromo st"
  shows "quotePrice (calculatedItem st it) * real_of_int (c_qty (calculatedItem st it))
           = lineTotal (calculatedItem st it) * (1 + taxRate)"
proof -
  have "1 + taxRate \<noteq> 0" by (simp add: tax_rates)
  then show ?thesis
    using assms by (simp add: calculatedItem_def prices_def Let_def)
qed

lemma quote_promo_embeds_tax:
  assumes "mode st = Quote" and "noTaxPromo st"
  shows "(\<Sum>c\<leftarrow>calculatedItems st. quotePrice c * real_of_int (c_qty c))
           = subtotal st + taxOnMerchandise st"
proof -
  have "map (\<lambda>c. quotePrice c * real_of_int (c_qty c)) (calculatedItems st)
      = map (\<lambda>c. lineTotal c * (1 + taxRate)) (calculatedItems st)"
    using assms by (auto simp: calculatedItems_def quote_promo_item)
  then have "(\<Sum>c\<leftarrow>calculatedItems st. quotePrice c * real_of_int (c_qty c))
      = (\<Sum>c\<leftarrow>calculatedItems st. lineTotal c * (1 + taxRate))"
    by (simp only:)
  also have "\<dots> = (\<Sum>c\<leftarrow>calculatedItems st. lineTotal c) * (1 + taxRate)"
    by (rule sum_list_mult_const)
  finally show ?thesis
    by (simp add: subtotal_def taxOnMerchandise_def foldl_add_sum_list algebra_simps)
qed

subsection \<open>The margin primitive priceForMargin\<close>

text \<open>
  Claim C7, as the specification states it: \<open>priceForMargin\<close> guards the division and
  signals \<open>InvalidMarginTarget\<close> for a target of 100. The code does not: for a landing
  cost of 600 and a target of 100 it divides by zero and returns \<open>Infinity\<close>.
\<close>

theorem priceForMargin_100_not_signalled:
  "priceForMargin 600 100 = PosInfinity
   \<and> \<not> matches_spec (priceForMargin 600 100) (spec_priceForMargin 600 100)"
  by (simp add: priceForMargin_def js_divide_def matches_spec_def spec_priceForMargin_def)

text \<open>
  Claim C7, amended. \<open>priceForMargin\<close> divides without a guard. For every target other
  than 100 the result is the finite quotient of the specification; none of the four
  targets the program passes is 100; for a target of 100 the call returns \<open>Infinity\<close>
  for a positive landing cost, \<open>NaN\<close> for a landing cost of 0 and \<open>-Infinity\<close> for a
  negative one, and signals nothing.
\<close>

theorem priceForMargin_unguarded:
  "(m \<noteq> 100 \<longrightarrow> matches_spec (priceForMargin L m) (spec_priceForMargin L m)
                 \<and> priceForMargin L m = Finite (L / (1 - m / 100)))
   \<and> (m \<in> set marginTargets \<longrightarrow> m \<noteq> 100)
   \<and> (L > 0 \<longrightarrow> priceForMargin L 100 = PosInfinity)
   \<and> (L = 0 \<longrightarrow> priceForMargin L 100 = NaN)
   \<and> (L < 0 \<longrightarrow> priceForMargin L 100 = NegInfinity)"
  by (auto simp: priceForMargin_def js_divide_def matches_spec_def spec_priceForMargin_def
      marginTargets_def)

theorem priceForMargin_unguarded_witness:
  "(47::real) \<in> set marginTargets \<and> (47::real) \<noteq> 100
   \<and> matches_spec (priceForMargin 600 47) (spec_priceForMargin 600 47)
   \<and> priceForMargin 600 100 = PosInfinity
   \<and> priceForMargin 0 100 = NaN
   \<and> priceForMargin (- 600) 100 = NegInfinity"
proof -
  have "(47::real) \<in> set marginTargets"
    by (simp add: marginTargets_def)
  moreover have "(0::real) < 600" and "(- 600::real) < 0"
    by simp_all
  ultimately show ?thesis
    using priceForMargin_unguarded [of 47 600] priceForMargin_unguarded [of 47 0]
      priceForMargin_unguarded [of 47 "- 600"] by blast
qed

subsection \<open>OTD back-calculation\<close>

text \<open>
  Claim C2. For every state in OTD mode, whatever the offer, the delivery fee and the
  total landing cost are (zero and negative values included), the back-calculation
  returns: the sale price is the offer less the delivery fee and the delivery tax, with
  the tax removed (\<open>backOutTax\<close>, a division by the constant 1.09125), and may be negative;
  the profit is the sale price less the total landing cost; the margin is
  \<open>calculateMargin(salePrice, totalLandingCost)\<close> when the total landing cost is
  positive and \<open>null\<close> otherwise. (\<open>dealLandingCost\<close> is the component's
  \<open>totalLandingCost\<close>, the sum over the aggregated items.)
\<close>

theorem otd_back_calculation:
  "otdSalePrice st = backOutTax (otdAmount st - deliveryAmount st - deliveryTax st)
   \<and> otdProfit st = otdSalePrice st - dealLandingCost st
   \<and> (dealLandingCost st > 0 \<longrightarrow>
        otdMargin st = Some (calculateMargin (otdSalePrice st) (dealLandingCost st)))
   \<and> (\<not> dealLandingCost st > 0 \<longrightarrow> otdMargin st = None)"
  by (simp add: otdSalePrice_def otdMerchandiseWithTax_def otdDeliveryWithTax_def
      backOutTax_def otdProfit_def otdMargin_def tax_rates)

lemma otd_example_landing: "dealLandingCost (deal Otd True Sale [sofa] offer) = 600"
  by (simp add: dealLandingCost_def calc_defs parse_defs example_defs)

lemma otd_example_no_landing: "dealLandingCost (deal Otd True Sale [emptyItem 2] offer) = 0"
  by (simp add: dealLandingCost_def calc_defs parse_defs example_defs)

text \<open>
  An offer of 2000 on the sofa; an offer of 100, below the delivery fee with its tax,
  where the sale price is negative; and a deal without any landing cost.
\<close>

theorem otd_back_calculation_witness:
  "otdSalePrice (deal Otd True Sale [sofa] ''2000'') = (2000 - 135 - 135 * 0.09125) / 1.09125
   \<and> otdMargin (deal Otd True Sale [sofa] ''2000'')
       = Some (calculateMargin (otdSalePrice (deal Otd True Sale [sofa] ''2000'')) 600)
   \<and> otdSalePrice (deal Otd True Sale [sofa] ''100'') < 0
   \<and> otdProfit (deal Otd True Sale [sofa] ''100'') < - 600
   \<and> otdMargin (deal Otd True Sale [sofa] ''100'') = Some 0
   \<and> otdMargin (deal Otd True Sale [emptyItem 2] ''2000'') = None"
proof -
  have amounts: "otdAmount (deal Otd True Sale its ''2000'') = 2000"
    "otdAmount (deal Otd True Sale its ''100'') = 100"
    "deliveryAmount (deal Otd True Sale its offer) = 135" for its offer
    by (simp_all add: otdAmount_def deliveryAmount_def parse_defs deal_def)
  show ?thesis
    using otd_back_calculation [of "deal Otd True Sale [sofa] ''2000''"]
      otd_back_calculation [of "deal Otd True Sale [sofa] ''100''"]
      otd_back_calculation [of "deal Otd True Sale [emptyItem 2] ''2000''"]
    by (simp add: otd_example_landing otd_example_no_landing amounts deliveryTax_def
        backOutTax_def test_TAX_RATE_def taxRate_def TAX_RATE_def calculateMargin_def)
qed

subsection \<open>Margin badges\<close>

text \<open>
  Claim C5. A margin of at least 50 is labelled Great and shown green; a margin of at
  least 47 and below 50 is labelled OK and shown orange; a margin below 47 is labelled
  Too Low and shown red. The lower bound of each band belongs to it. The overall margin
  (label and badge class), the margin of an item (colour and background) and the OTD
  margin (colour, banner background and the banner's own wording of the three bands) are
  classified by the same two thresholds.
\<close>

theorem margin_badge_bands:
  "(m \<ge> 50 \<longrightarrow>
      getMarginLabel m = check_mark @ '' Great'' \<and> getMarginColor m = ''#2e7d32''
      \<and> overallBadgeClass m = ''badge green'' \<and> itemBadgeBackground m = ''#e8f5e9''
      \<and> otdBannerLabel m = check_mark @ '' APPROVED''
      \<and> otdBannerBackground m = ''linear-gradient(135deg, #2e7d32 0%, #1b5e20 100%)'')
   \<and> (47 \<le> m \<and> m < 50 \<longrightarrow>
      getMarginLabel m = warning_emoji @ '' OK'' \<and> getMarginColor m = ''#f57c00''
      \<and> overallBadgeClass m = ''badge orange'' \<and> itemBadgeBackground m = ''#fff3e0''
      \<and> otdBannerLabel m = warning_emoji @ '' MANAGER OK?''
      \<and> otdBannerBackground m = ''linear-gradient(135deg, #f57c00 0%, #e65100 100%)'')
   \<and> (m < 47 \<longrightarrow>
      getMarginLabel m = ballot_x @ '' Too Low'' \<and> getMarginColor m = ''#c62828''
      \<and> overallBadgeClass m = ''badge red'' \<and> itemBadgeBackground m = ''#ffebee''
      \<and> otdBannerLabel m = ballot_x @ '' TOO LOW''
      \<and> otdBannerBackground m = ''linear-gradient(135deg, #c62828 0%, #b71c1c 100%)'')"
  by (simp add: getMarginLabel_def getMarginColor_def overallBadgeClass_def
      itemBadgeBackground_def otdBannerLabel_def otdBannerBackground_def)

text \<open>The boundaries: exactly 50 is green, exactly 47 is orange, 46.99 is red.\<close>

theorem margin_badge_bands_witness:
  "getMarginLabel 50 = check_mark @ '' Great'' \<and> getMarginColor 50 = ''#2e7d32''
   \<and> getMarginLabel 47 = warning_emoji @ '' OK'' \<and> getMarginColor 47 = ''#f57c00''
   \<and> getMarginLabel 46.99 = ballot_x @ '' Too Low'' \<and> getMarginColor 46.99 = ''#c62828''
   \<and> otdBannerLabel 50 = check_mark @ '' APPROVED'' \<and> overallBadgeClass 47 = ''badge orange''"
  using margin_badge_bands [of 50] margin_badge_bands [of 47] margin_badge_bands [of "46.99"]
  by simp

subsection \<open>Quantities\<close>

lemma calculatedItem_fields:
  "lineTotal (calculatedItem st it) = fst (snd (prices st it)) * real_of_int (qty_of it)"
  "invoicePrice (calculatedItem st it) = fst (snd (prices st it))"
  "c_landingCost (calculatedItem st it) = parseMoney (landingCost it)"
  "c_qty (calculatedItem st it) = qty_of it"
  by (simp_all add: calculatedItem_def Let_def split: prod.splits)

text \<open>
  Claim C8. A quantity of 0 is a valid input and gives a line total of
  \<open>invoicePrice * 0 = 0\<close> and a landing cost contribution of \<open>landingCost * 0 = 0\<close>; only a
  quantity that is unset or invalid counts as 1. The tests say the same (\<open>0 quantity = 0
  total\<close>), and their helpers give 0 for the item of that test. The code does not: it reads
  the quantity as \<open>parseInt(item.qty) || 1\<close>, where 0 is falsy, so the item with the
  quantity \<open>0\<close> counts as one unit, with a line total of 1000 and a landing cost
  contribution of 500 when the promotion is off, and a line total other than 0 when it is
  on.
\<close>

theorem quantity_zero_counts_as_one:
  "parseInt (qty zero_quantity_item) = Some 0
   \<and> c_qty (calculatedItem (deal Margin False Sale [zero_quantity_item] []) zero_quantity_item) = 1
   \<and> lineTotal (calculatedItem (deal Margin False Sale [zero_quantity_item] []) zero_quantity_item)
       = 1000
   \<and> totalLandingCost
         (calculatedItem (deal Margin False Sale [zero_quantity_item] []) zero_quantity_item) = 500
   \<and> subtotal (deal Margin False Sale [zero_quantity_item] []) = 1000
   \<and> dealLandingCost (deal Margin False Sale [zero_quantity_item] []) = 500
   \<and> c_qty (calculatedItem (deal Margin True Sale [zero_quantity_item] []) zero_quantity_item) = 1
   \<and> lineTotal (calculatedItem (deal Margin True Sale [zero_quantity_item] []) zero_quantity_item)
       \<noteq> 0
   \<and> calculateItemsTotal [(1000, 0)] = 0
   \<and> calculateTotalLanding [(500, 0)] = 0"
  by (simp add: subtotal_def dealLandingCost_def calculateItemsTotal_def
      calculateTotalLanding_def calc_defs parse_defs example_defs)

text \<open>
  What the code does with a quantity in general: an integer other than 0 multiplies the
  invoice price and the landing cost; a quantity that does not parse, and a quantity of
  0, count as 1.
\<close>

lemma quantity_fallback:
  "(parseInt (qty it) = Some n \<and> n \<noteq> 0 \<longrightarrow>
      c_qty (calculatedItem st it) = n
      \<and> lineTotal (calculatedItem st it) = invoicePrice (calculatedItem st it) * real_of_int n
      \<and> totalLandingCost (calculatedItem st it)
          = c_landingCost (calculatedItem st it) * real_of_int n)
   \<and> (parseInt (qty it) = None \<or> parseInt (qty it) = Some 0 \<longrightarrow>
      c_qty (calculatedItem st it) = 1
      \<and> lineTotal (calculatedItem st it) = invoicePrice (calculatedItem st it)
      \<and> totalLandingCost (calculatedItem st it) = c_landingCost (calculatedItem st it))"
  by (auto simp: calculatedItem_def qty_of_def Let_def split: prod.splits)

subsection \<open>Aggregation\<close>

lemma invoicePrice_nonneg:
  assumes "0 \<le> parseMoney (price it)" and "salePercent st \<le> 100"
  shows "0 \<le> fst (snd (prices st it))"
proof -
  have "0 \<le> 1 - discount st"
    using assms(2) by (simp add: discount_def)
  then have "0 \<le> parseMoney (price it) * (1 - discount st)"
    using assms(1) by simp
  moreover have "0 < 1 + taxRate"
    by (simp add: tax_rates)
  ultimately show ?thesis
    using assms(1) by (simp add: prices_def Let_def)
qed

lemma qty_of_positive:
  assumes "case parseInt (qty it) of None \<Rightarrow> True | Some n \<Rightarrow> 0 \<le> n"
  shows "0 < qty_of it"
  using assms by (simp add: qty_of_def split: option.splits)

lemma valid_item_nonneg:
  assumes "valid_item it" and "salePercent st \<le> 100"
  shows "0 \<le> lineTotal (calculatedItem st it)" and "0 \<le> c_landingCost (calculatedItem st it)"
proof -
  have "0 \<le> fst (snd (prices st it))"
    using assms by (simp add: valid_item_def invoicePrice_nonneg)
  moreover have "0 < qty_of it"
    using assms(1) by (simp add: valid_item_def qty_of_positive)
  ultimately show "0 \<le> lineTotal (calculatedItem st it)"
    by (simp add: calculatedItem_fields)
  show "0 \<le> c_landingCost (calculatedItem st it)"
    using assms(1) by (simp add: valid_item_def calculatedItem_fields)
qed

text \<open>
  Claim C9. For line items within the ranges of the data model (prices, landing costs
  and quantities that are not negative, a discount of at most 100 percent), an item is
  left out of the aggregation if and only if its line total and its landing cost are
  both 0: the aggregated items are the computed items except those, every item with a
  line total or a landing cost other than 0 is among them, and the deal subtotal, the
  total landing cost and the total profit are the sums over them.
\<close>

theorem aggregation_filter:
  assumes "list_all valid_item (items st)" and "salePercent st \<le> 100"
  shows "calculatedItems st =
           filter (\<lambda>c. \<not> (lineTotal c = 0 \<and> c_landingCost c = 0))
             (map (calculatedItem st) (items st))
         \<and> (\<forall>it \<in> set (items st).
               (calculatedItem st it \<notin> set (calculatedItems st))
                 = (lineTotal (calculatedItem st it) = 0
                    \<and> c_landingCost (calculatedItem st it) = 0))
         \<and> subtotal st = (\<Sum>c\<leftarrow>calculatedItems st. lineTotal c)
         \<and> dealLandingCost st = (\<Sum>c\<leftarrow>calculatedItems st. totalLandingCost c)
         \<and> dealProfit st =
             (\<Sum>c\<leftarrow>calculatedItems st. case totalProfit c of Some p \<Rightarrow> p | None \<Rightarrow> 0)"
proof -
  have "(lineTotal c > 0 \<or> c_landingCost c > 0) = (\<not> (lineTotal c = 0 \<and> c_landingCost c = 0))"
    if "c \<in> set (map (calculatedItem st) (items st))" for c
  proof -
    from that obtain it where "it \<in> set (items st)" and c: "c = calculatedItem st it"
      by auto
    then have "valid_item it"
      using assms(1) by (simp add: list_all_iff)
    then have "0 \<le> lineTotal c" and "0 \<le> c_landingCost c"
      unfolding c using assms(2) by (rule valid_item_nonneg)+
    then show ?thesis by auto
  qed
  then have kept: "calculatedItems st =
      filter (\<lambda>c. \<not> (lineTotal c = 0 \<and> c_landingCost c = 0))
        (map (calculatedItem st) (items st))"
    unfolding calculatedItems_def by (rule filter_cong [OF refl])
  have each: "(calculatedItem st it \<notin> set (calculatedItems st))
      = (lineTotal (calculatedItem st it) = 0 \<and> c_landingCost (calculatedItem st it) = 0)"
    if "it \<in> set (items st)" for it
    using that unfolding kept by auto
  have sums: "subtotal st = (\<Sum>c\<leftarrow>calculatedItems st. lineTotal c)"
    "dealLandingCost st = (\<Sum>c\<leftarrow>calculatedItems st. totalLandingCost c)"
    "dealProfit st =
       (\<Sum>c\<leftarrow>calculatedItems st. case totalProfit c of Some p \<Rightarrow> p | None \<Rightarrow> 0)"
    by (simp_all add: subtotal_def dealLandingCost_def dealProfit_def foldl_add_sum_list)
  from kept each sums show ?thesis
    by blast
qed

text \<open>
  A deal of the sofa, an empty row and a sofa without a price: the empty row (id 2) is
  left out, the row with only a landing cost (id 3) is kept.
\<close>

theorem aggregation_filter_witness:
  "list_all valid_item (items (deal Margin False Sale [sofa, emptyItem 2, sofa\<lparr>item_id := 3, price := []\<rparr>] []))
   \<and> salePercent (deal Margin False Sale [sofa, emptyItem 2, sofa\<lparr>item_id := 3, price := []\<rparr>] []) \<le> 100
   \<and> calculatedItems (deal Margin False Sale [sofa, emptyItem 2, sofa\<lparr>item_id := 3, price := []\<rparr>] []) =
       filter (\<lambda>c. \<not> (lineTotal c = 0 \<and> c_landingCost c = 0))
         (map (calculatedItem (deal Margin False Sale [sofa, emptyItem 2, sofa\<lparr>item_id := 3, price := []\<rparr>] []))
           (items (deal Margin False Sale [sofa, emptyItem 2, sofa\<lparr>item_id := 3, price := []\<rparr>] [])))
   \<and> map (\<lambda>c. item_id (source c))
        (calculatedItems (deal Margin False Sale [sofa, emptyItem 2, sofa\<lparr>item_id := 3, price := []\<rparr>] []))
       = [1, 3]"
proof -
  let ?d = "deal Margin False Sale [sofa, emptyItem 2, sofa\<lparr>item_id := 3, price := []\<rparr>] []"
  have valid: "list_all valid_item (items ?d)"
    by (simp add: valid_item_def parse_defs example_defs)
  have percent: "salePercent ?d \<le> 100"
    by (simp add: deal_def)
  have kept: "calculatedItems ?d =
      filter (\<lambda>c. \<not> (lineTotal c = 0 \<and> c_landingCost c = 0))
        (map (calculatedItem ?d) (items ?d))"
    using aggregation_filter [OF valid percent] by blast
  have "map (\<lambda>c. item_id (source c))
          (filter (\<lambda>c. \<not> (lineTotal c = 0 \<and> c_landingCost c = 0))
             (map (calculatedItem ?d) (items ?d))) = [1, 3]"
    by (simp add: calc_defs parse_defs example_defs)
  then have "map (\<lambda>c. item_id (source c)) (calculatedItems ?d) = [1, 3]"
    by (simp only: kept)
  with valid percent kept show ?thesis
    by blast
qed

subsection \<open>Margin targets on an item\<close>

lemma setItemToMargin_item_first:
  assumes "item_id it = itemId" and "parseMoney (landingCost it) > 0"
    and "\<not> marginSet it" and "selectedMargin it = None"
  shows "setItemToMargin_item itemId t it =
           it\<lparr> price := toFixed2 (priceForMargin (parseMoney (landingCost it)) t),
               marginSet := True, selectedMargin := Some t, originalPrice := Some (price it) \<rparr>"
  using assms by (simp add: setItemToMargin_item_def Let_def)

lemma setItemToMargin_item_second:
  assumes "item_id it = itemId" and "parseMoney (landingCost it) > 0"
    and "selectedMargin it = Some t" and "originalPrice it = Some previous"
  shows "setItemToMargin_item itemId t it =
           it\<lparr> price := previous, marginSet := False, selectedMargin := None,
               originalPrice := None \<rparr>"
  using assms by (simp add: setItemToMargin_item_def Let_def)

lemma setItemToMargin_item_twice:
  assumes "item_id it = itemId" and "parseMoney (landingCost it) > 0"
    and "\<not> marginSet it" and "selectedMargin it = None"
  shows "setItemToMargin_item itemId t (setItemToMargin_item itemId t it) =
           it\<lparr> originalPrice := None \<rparr>"
proof -
  let ?mid = "it\<lparr> price := toFixed2 (priceForMargin (parseMoney (landingCost it)) t),
               marginSet := True, selectedMargin := Some t, originalPrice := Some (price it) \<rparr>"
  have "setItemToMargin_item itemId t it = ?mid"
    using assms by (rule setItemToMargin_item_first)
  moreover have "setItemToMargin_item itemId t ?mid =
      ?mid\<lparr> price := price it, marginSet := False, selectedMargin := None,
            originalPrice := None \<rparr>"
    using assms(1,2) by (intro setItemToMargin_item_second) simp_all
  ultimately show ?thesis
    using assms(3,4) by (cases it) simp
qed

text \<open>
  Claim C6. Take an item of the state with a positive landing cost and no margin target
  selected (\<open>selectedMargin\<close> is \<open>null\<close> and the item is not marked \<open>marginSet\<close>). After
  \<open>setItemToMargin\<close> has been applied twice with its id and the same target, the item has
  the price it had before the first application, \<open>marginSet\<close> is false, and
  \<open>selectedMargin\<close> and \<open>originalPrice\<close> are cleared; every other field is as before. In
  between, after the first application, the item is marked, the target is selected and
  the earlier price is kept in \<open>originalPrice\<close>.
\<close>

theorem setItemToMargin_twice:
  assumes "i < length (items st)" and "item_id (items st ! i) = itemId"
    and "parseMoney (landingCost (items st ! i)) > 0"
    and "\<not> marginSet (items st ! i)" and "selectedMargin (items st ! i) = None"
  shows "price (items (setItemToMargin itemId t (setItemToMargin itemId t st)) ! i)
           = price (items st ! i)
         \<and> \<not> marginSet (items (setItemToMargin itemId t (setItemToMargin itemId t st)) ! i)
         \<and> selectedMargin (items (setItemToMargin itemId t (setItemToMargin itemId t st)) ! i)
             = None
         \<and> originalPrice (items (setItemToMargin itemId t (setItemToMargin itemId t st)) ! i)
             = None
         \<and> items (setItemToMargin itemId t (setItemToMargin itemId t st)) ! i
             = (items st ! i)\<lparr> originalPrice := None \<rparr>
         \<and> marginSet (items (setItemToMargin itemId t st) ! i)
         \<and> selectedMargin (items (setItemToMargin itemId t st) ! i) = Some t
         \<and> originalPrice (items (setItemToMargin itemId t st) ! i) = Some (price (items st ! i))"
proof -
  let ?it = "items st ! i"
  have one: "items (setItemToMargin itemId t st) ! i = setItemToMargin_item itemId t ?it"
    using assms(1) by (simp add: setItemToMargin_def)
  have two: "items (setItemToMargin itemId t (setItemToMargin itemId t st)) ! i
      = setItemToMargin_item itemId t (setItemToMargin_item itemId t ?it)"
    using assms(1) by (simp add: setItemToMargin_def)
  have "setItemToMargin_item itemId t (setItemToMargin_item itemId t ?it)
      = ?it\<lparr> originalPrice := None \<rparr>"
    using assms(2-5) by (rule setItemToMargin_item_twice)
  moreover have "setItemToMargin_item itemId t ?it =
      ?it\<lparr> price := toFixed2 (priceForMargin (parseMoney (landingCost ?it)) t),
           marginSet := True, selectedMargin := Some t, originalPrice := Some (price ?it) \<rparr>"
    using assms(2-5) by (rule setItemToMargin_item_first)
  ultimately show ?thesis
    using assms(4,5) by (simp add: one two)
qed

text \<open>The sofa, typed in at 1200, set to a margin of 50 percent and back.\<close>

theorem setItemToMargin_twice_witness:
  "price (items (setItemToMargin 1 50 (setItemToMargin 1 50 (deal Margin True Sale [sofa] []))) ! 0)
     = ''1200''
   \<and> \<not> marginSet (items (setItemToMargin 1 50 (setItemToMargin 1 50 (deal Margin True Sale [sofa] []))) ! 0)
   \<and> selectedMargin (items (setItemToMargin 1 50 (setItemToMargin 1 50 (deal Margin True Sale [sofa] []))) ! 0)
       = None
   \<and> originalPrice (items (setItemToMargin 1 50 (setItemToMargin 1 50 (deal Margin True Sale [sofa] []))) ! 0)
       = None
   \<and> selectedMargin (items (setItemToMargin 1 50 (deal Margin True Sale [sofa] [])) ! 0) = Some 50
   \<and> originalPrice (items (setItemToMargin 1 50 (deal Margin True Sale [sofa] [])) ! 0)
       = Some ''1200''"
proof -
  let ?d = "deal Margin True Sale [sofa] []"
  have "0 < length (items ?d)" and "item_id (items ?d ! 0) = 1"
    and "parseMoney (landingCost (items ?d ! 0)) > 0"
    and "\<not> marginSet (items ?d ! 0)" and "selectedMargin (items ?d ! 0) = None"
    by (simp_all add: parse_defs example_defs)
  from setItemToMargin_twice [OF this, of 50] show ?thesis
    by (simp add: example_defs)
qed

text \<open>
  The hypothesis of C6 on \<open>marginSet\<close> follows from the one on \<open>selectedMargin\<close> in every
  state the component builds: the two flags agree on a new item, and every edit keeps
  them in agreement.
\<close>

lemma flags_agree_emptyItem: "flags_agree (emptyItem i)"
  by (simp add: flags_agree_def emptyItem_def)

lemma flags_agree_setItemToMargin_item:
  "flags_agree it \<Longrightarrow> flags_agree (setItemToMargin_item itemId t it)"
  by (simp add: flags_agree_def setItemToMargin_item_def Let_def split: option.splits)

lemma list_all_map_preserved:
  assumes "list_all P xs" and "\<And>x. P x \<Longrightarrow> P (f x)"
  shows "list_all P (map f xs)"
  using assms by (induction xs) simp_all

lemma flags_agree_preserved:
  assumes "list_all flags_agree (items st)"
  shows "list_all flags_agree (items (setItemToMargin itemId t st))"
    and "list_all flags_agree (items (updateItemPrice itemId v st))"
    and "list_all flags_agree (items (updateItem itemId f v st))"
    and "list_all flags_agree (items (addItem now st))"
proof -
  show "list_all flags_agree (items (setItemToMargin itemId t st))"
    unfolding setItemToMargin_def
    by (simp, rule list_all_map_preserved [OF assms]) (rule flags_agree_setItemToMargin_item)
  show "list_all flags_agree (items (updateItemPrice itemId v st))"
    unfolding updateItemPrice_def
    by (simp, rule list_all_map_preserved [OF assms]) (simp add: flags_agree_def)
  show "list_all flags_agree (items (updateItem itemId f v st))"
    unfolding updateItem_def
    by (simp, rule list_all_map_preserved [OF assms])
      (simp add: flags_agree_def split: field.splits)
  show "list_all flags_agree (items (addItem now st))"
    using assms by (simp add: addItem_def flags_agree_emptyItem)
qed

lemma setItemToMargin_item_no_landing:
  assumes "parseMoney (landingCost it) \<le> 0"
  shows "setItemToMargin_item itemId t it = it"
  using assms by (simp add: setItemToMargin_item_def Let_def)

lemma setItemToMargin_unchanged:
  assumes "\<forall>it \<in> set (items st). item_id it = itemId \<longrightarrow> parseMoney (landingCost it) \<le> 0"
  shows "setItemToMargin itemId t st = st"
proof -
  have "setItemToMargin_item itemId t it = it" if "it \<in> set (items st)" for it
    using that assms by (cases "item_id it = itemId")
      (simp_all add: setItemToMargin_item_no_landing, simp add: setItemToMargin_item_def)
  then have "map (setItemToMargin_item itemId t) (items st) = items st"
    by (simp add: map_idI)
  then show ?thesis
    by (simp add: setItemToMargin_def)
qed

text \<open>
  The ids identify the items in every state the component builds from one with distinct
  ids: no edit changes an id, and \<open>addItem\<close> keeps the ids distinct when the clock gives
  a new one.
\<close>

lemma item_id_setItemToMargin_item: "item_id (setItemToMargin_item i t it) = item_id it"
  by (simp add: setItemToMargin_item_def Let_def split: option.splits)

lemma distinct_ids_preserved:
  assumes "distinct (map item_id (items st))"
  shows "distinct (map item_id (items (setItemToMargin i t st)))"
    and "distinct (map item_id (items (updateItemPrice i v st)))"
    and "distinct (map item_id (items (updateItem i f v st)))"
    and "distinct (map item_id (items (removeItem i st)))"
    and "now \<notin> item_id ` set (items st) \<Longrightarrow> distinct (map item_id (items (addItem now st)))"
proof -
  have "map item_id (items (setItemToMargin i t st)) = map item_id (items st)"
    by (simp add: setItemToMargin_def item_id_setItemToMargin_item)
  then show "distinct (map item_id (items (setItemToMargin i t st)))"
    using assms by simp
  have "map item_id (items (updateItemPrice i v st)) = map item_id (items st)"
    by (simp add: updateItemPrice_def)
  then show "distinct (map item_id (items (updateItemPrice i v st)))"
    using assms by simp
  have "map item_id (items (updateItem i f v st)) = map item_id (items st)"
    by (simp add: updateItem_def split: field.splits)
  then show "distinct (map item_id (items (updateItem i f v st)))"
    using assms by simp
  show "distinct (map item_id (items (removeItem i st)))"
    using assms by (simp add: removeItem_def distinct_map_filter)
  show "distinct (map item_id (items (addItem now st)))" if "now \<notin> item_id ` set (items st)"
    using assms that by (simp add: addItem_def emptyItem_def)
qed

text \<open>
  Claim C10. \<open>setItemToMargin\<close> addresses an item by its id. An item whose landing cost
  parses to a value of at most 0 is returned as it is, for every target. When that holds
  for every item carrying the id of the call, the call leaves the state as it is: no
  field of any item changes and no margin flag is set. In particular, for an item of the
  state whose landing cost parses to a value of at most 0, in a list whose ids identify
  its items (no two items share an id), the call with the id of that item changes
  nothing.
\<close>

theorem setItemToMargin_without_landing_cost:
  "(parseMoney (landingCost it) \<le> 0 \<longrightarrow> setItemToMargin_item itemId t it = it)
   \<and> ((\<forall>x \<in> set (items st). item_id x = itemId \<longrightarrow> parseMoney (landingCost x) \<le> 0) \<longrightarrow>
        setItemToMargin itemId t st = st)
   \<and> (it \<in> set (items st) \<and> parseMoney (landingCost it) \<le> 0
        \<and> distinct (map item_id (items st)) \<longrightarrow>
        setItemToMargin (item_id it) t st = st)"
proof -
  have "setItemToMargin (item_id it) t st = st"
    if member: "it \<in> set (items st)" and cost: "parseMoney (landingCost it) \<le> 0"
      and ids: "distinct (map item_id (items st))"
  proof -
    have "parseMoney (landingCost x) \<le> 0"
      if "x \<in> set (items st)" and "item_id x = item_id it" for x
    proof -
      have "inj_on item_id (set (items st))"
        using ids by (simp add: distinct_map)
      then have "x = it"
        using that member by (simp add: inj_on_def)
      then show ?thesis
        using cost by simp
    qed
    then show ?thesis
      by (intro setItemToMargin_unchanged) blast
  qed
  then show ?thesis
    by (simp add: setItemToMargin_item_no_landing setItemToMargin_unchanged)
qed

text \<open>The sofa and an empty row: a margin target on the empty row changes nothing.\<close>

theorem setItemToMargin_without_landing_cost_witness:
  "setItemToMargin_item 2 50 (emptyItem 2) = emptyItem 2
   \<and> setItemToMargin 2 50 (deal Margin True Sale [sofa, emptyItem 2] [])
       = deal Margin True Sale [sofa, emptyItem 2] []"
proof -
  let ?d = "deal Margin True Sale [sofa, emptyItem 2] []"
  have "emptyItem 2 \<in> set (items ?d)" and "parseMoney (landingCost (emptyItem 2)) \<le> 0"
    and "distinct (map item_id (items ?d))"
    and "\<forall>x \<in> set (items ?d). item_id x = 2 \<longrightarrow> parseMoney (landingCost x) \<le> 0"
    by (simp_all add: parse_defs example_defs)
  then show ?thesis
    using setItemToMargin_without_landing_cost [of "emptyItem 2" 2 50 ?d] by blast
qed

end
